theory Spec2Isabelle
  imports Complex_Main
begin

section \<open>JavaScript values the harness computes with\<close>

text \<open>
  The evaluation tasks and the test-case builder are TypeScript. Three features of the
  language decide what they do and are written out here: the truthiness of a value
  (\<open>!v\<close>, \<open>a || b\<close>, \<open>c ? a : b\<close>), the conversion \<open>Number(v)\<close> of an environment
  variable, and \<open>String.prototype.includes\<close>.

  A string is the list of its code units, each below 256. A property that is absent
  (\<open>undefined\<close>) is \<open>None\<close>.
\<close>

subsection \<open>Numbers\<close>

text \<open>
  A JavaScript number is a double: not-a-number, an infinity, negative zero, or a finite
  value, which is kept as the rational it denotes (\<open>Num 0\<close> is positive zero).
\<close>

datatype number = NaN | PosInfinity | NegInfinity | NegZero | Num rat

text \<open>\<open>ToBoolean\<close> on a number: zero of either sign and not-a-number are falsy.\<close>

definition truthy_number :: "number \<Rightarrow> bool" where
  "truthy_number n =
     (case n of
        NaN \<Rightarrow> False
      | PosInfinity \<Rightarrow> True
      | NegInfinity \<Rightarrow> True
      | NegZero \<Rightarrow> False
      | Num x \<Rightarrow> x \<noteq> 0)"

text \<open>\<open>a || b\<close> on numbers: the left operand when it is truthy, else the right one.\<close>

definition or_number :: "number \<Rightarrow> number \<Rightarrow> number" where
  "or_number a b = (if truthy_number a then a else b)"

text \<open>\<open>ToBoolean\<close> on a string property: \<open>undefined\<close> and the empty string are falsy.\<close>

definition truthy :: "string option \<Rightarrow> bool" where
  "truthy v = (case v of None \<Rightarrow> False | Some s \<Rightarrow> s \<noteq> [])"

subsection \<open>Rounding to a double\<close>

text \<open>The number of binary digits of a positive integer.\<close>

function bitLength :: "int \<Rightarrow> nat" where
  "bitLength n = (if n \<le> 0 then 0 else Suc (bitLength (n div 2)))"
  by pat_completeness auto
termination
  by (relation "measure nat") auto

declare bitLength.simps [simp del]

definition pow2 :: "int \<Rightarrow> rat" where
  "pow2 e = (if 0 \<le> e then 2 ^ nat e else 1 / 2 ^ nat (- e))"

text \<open>The exponent \<open>e\<close> with \<open>2^e \<le> a / b < 2^(e+1)\<close>, for positive \<open>a\<close> and \<open>b\<close>.\<close>

definition floorLog2 :: "int \<Rightarrow> int \<Rightarrow> int" where
  "floorLog2 a b =
     (let d = int (bitLength a) - int (bitLength b)
      in if pow2 d \<le> of_int a / of_int b then d else d - 1)"

text \<open>Rounding a non-negative rational to the nearest integer, a tie going to the even one.\<close>

definition roundHalfEven :: "rat \<Rightarrow> int" where
  "roundHalfEven x =
     (let f = \<lfloor>x\<rfloor>; r = x - of_int f
      in if r < 1 / 2 then f
         else if 1 / 2 < r then f + 1
         else if even f then f else f + 1)"

text \<open>
  The double nearest to the exact value \<open>a / b\<close> with the sign \<open>neg\<close> (IEEE 754
  round-to-nearest, ties to even): 53 significant bits down to the exponent \<open>-1022\<close>,
  multiples of \<open>2^-1074\<close> below it, an infinity from \<open>2^1024\<close> on.
\<close>

definition roundToDouble :: "bool \<Rightarrow> int \<Rightarrow> int \<Rightarrow> number" where
  "roundToDouble neg a b =
     (if a = 0 then (if neg then NegZero else Num 0)
      else
        let e = floorLog2 a b;
            p = max e (- 1022) - 52;
            n = roundHalfEven (of_int a / of_int b / pow2 p)
        in if 1024 \<le> e \<or> (e = 1023 \<and> n = 2 ^ 53)
           then (if neg then NegInfinity else PosInfinity)
           else if n = 0 then (if neg then NegZero else Num 0)
           else Num ((if neg then - 1 else 1) * of_int n * pow2 p))"

subsection \<open>Number(string)\<close>

text \<open>
  \<open>StringToNumber\<close> of ECMAScript: the string is trimmed of white space; the empty
  string is \<open>0\<close>; a binary, octal or hexadecimal integer literal carries no sign; a decimal
  literal has an optional sign, digits with an optional fraction and an optional exponent,
  or is \<open>Infinity\<close>; every other string is not-a-number.
\<close>

definition isStrWhiteSpaceChar :: "char \<Rightarrow> bool" where
  "isStrWhiteSpaceChar c =
     (c \<in> set [CHR 0x09, CHR 0x0A, CHR 0x0B, CHR 0x0C, CHR 0x0D, CHR 0x20, CHR 0xA0])"

definition trimString :: "string \<Rightarrow> string" where
  "trimString s = rev (dropWhile isStrWhiteSpaceChar (rev (dropWhile isStrWhiteSpaceChar s)))"

definition digitValue :: "char \<Rightarrow> int option" where
  "digitValue c =
     (let k = of_char c :: int
      in if 48 \<le> k \<and> k \<le> 57 then Some (k - 48)
         else if 97 \<le> k \<and> k \<le> 102 then Some (k - 87)
         else if 65 \<le> k \<and> k \<le> 70 then Some (k - 55)
         else None)"

definition isDigitOf :: "int \<Rightarrow> char \<Rightarrow> bool" where
  "isDigitOf base c = (case digitValue c of None \<Rightarrow> False | Some d \<Rightarrow> d < base)"

text \<open>The value of a string of digits of the base, read from the left.\<close>

definition digitsValue :: "int \<Rightarrow> string \<Rightarrow> int" where
  "digitsValue base ds =
     foldl (\<lambda>acc c. acc * base + (case digitValue c of None \<Rightarrow> 0 | Some d \<Rightarrow> d)) 0 ds"

text \<open>\<open>0x\<close>, \<open>0o\<close> and \<open>0b\<close> literals (either case of the letter), after the prefix.\<close>

definition nonDecimalIntegerLiteral :: "int \<Rightarrow> string \<Rightarrow> number" where
  "nonDecimalIntegerLiteral base ds =
     (if ds \<noteq> [] \<and> list_all (isDigitOf base) ds
      then roundToDouble False (digitsValue base ds) 1
      else NaN)"

text \<open>The exponent part after its \<open>e\<close>: an optional sign and at least one digit.\<close>

definition signedInteger :: "string \<Rightarrow> int option" where
  "signedInteger s =
     (let neg = (s \<noteq> [] \<and> hd s = CHR ''-'');
          ds = (if s \<noteq> [] \<and> (hd s = CHR ''+'' \<or> hd s = CHR ''-'') then tl s else s)
      in if ds \<noteq> [] \<and> list_all (isDigitOf 10) ds
         then Some ((if neg then - 1 else 1) * digitsValue 10 ds)
         else None)"

text \<open>
  An unsigned decimal literal: \<open>Infinity\<close>, or digits, an optional point and fraction
  digits (one of the two digit runs is not empty), and an optional exponent part. Its
  exact value is \<open>m * 10^x\<close>, taken as a fraction and rounded.
\<close>

definition strUnsignedDecimalLiteral :: "bool \<Rightarrow> string \<Rightarrow> number" where
  "strUnsignedDecimalLiteral neg s =
     (if s = ''Infinity'' then (if neg then NegInfinity else PosInfinity)
      else
        let ip = takeWhile (isDigitOf 10) s;
            r1 = dropWhile (isDigitOf 10) s;
            point = (r1 \<noteq> [] \<and> hd r1 = CHR ''.'');
            fp = (if point then takeWhile (isDigitOf 10) (tl r1) else []);
            r2 = (if point then dropWhile (isDigitOf 10) (tl r1) else r1);
            ex = (if r2 = [] then Some 0
                  else if hd r2 = CHR ''e'' \<or> hd r2 = CHR ''E'' then signedInteger (tl r2)
                  else None)
        in if ip = [] \<and> fp = [] then NaN
           else
             (case ex of
                None \<Rightarrow> NaN
              | Some x \<Rightarrow>
                  let m = digitsValue 10 (ip @ fp);
                      x' = x - int (length fp)
                  in if 0 \<le> x' then roundToDouble neg (m * 10 ^ nat x') 1
                     else roundToDouble neg m (10 ^ nat (- x'))))"

definition StringToNumber :: "string \<Rightarrow> number" where
  "StringToNumber str =
     (let s = trimString str
      in if s = [] then Num 0
         else if 2 \<le> length s \<and> hd s = CHR ''0'' \<and> (s ! 1 = CHR ''x'' \<or> s ! 1 = CHR ''X'')
           then nonDecimalIntegerLiteral 16 (drop 2 s)
         else if 2 \<le> length s \<and> hd s = CHR ''0'' \<and> (s ! 1 = CHR ''o'' \<or> s ! 1 = CHR ''O'')
           then nonDecimalIntegerLiteral 8 (drop 2 s)
         else if 2 \<le> length s \<and> hd s = CHR ''0'' \<and> (s ! 1 = CHR ''b'' \<or> s ! 1 = CHR ''B'')
           then nonDecimalIntegerLiteral 2 (drop 2 s)
         else if hd s = CHR ''-'' then strUnsignedDecimalLiteral True (tl s)
         else if hd s = CHR ''+'' then strUnsignedDecimalLiteral False (tl s)
         else strUnsignedDecimalLiteral False s)"

text \<open>\<open>Number(v)\<close> for an environment variable: \<open>undefined\<close> converts to not-a-number.\<close>

definition Number :: "string option \<Rightarrow> number" where
  "Number v = (case v of None \<Rightarrow> NaN | Some s \<Rightarrow> StringToNumber s)"

subsection \<open>Strings\<close>

fun startsWith :: "string \<Rightarrow> string \<Rightarrow> bool" where
  "startsWith s [] = True"
| "startsWith [] (p # ps) = False"
| "startsWith (c # cs) (p # ps) = (c = p \<and> startsWith cs ps)"

text \<open>\<open>s.includes(sub)\<close>: \<open>sub\<close> occurs in \<open>s\<close>, case-sensitively.\<close>

fun includes_str :: "string \<Rightarrow> string \<Rightarrow> bool" where
  "includes_str [] sub = (sub = [])"
| "includes_str (c # cs) sub = (startsWith (c # cs) sub \<or> includes_str cs sub)"

text \<open>\<open>xs.join(sep)\<close>.\<close>

fun join :: "string list \<Rightarrow> string \<Rightarrow> string" where
  "join [] sep = []"
| "join [x] sep = x"
| "join (x # y # ys) sep = x @ sep @ join (y # ys) sep"

text \<open>A string property inside a template literal: \<open>undefined\<close> prints as its name.\<close>

definition template :: "string option \<Rightarrow> string" where
  "template v = (case v of None \<Rightarrow> ''undefined'' | Some s \<Rightarrow> s)"

text \<open>The decimal digits of a natural number, for an array length in a template literal.\<close>

fun decimal :: "nat \<Rightarrow> string" where
  "decimal n =
     (if n < 10 then [char_of (48 + n)] else decimal (n div 10) @ [char_of (48 + n mod 10)])"

declare decimal.simps [simp del]

section \<open>The test-case builder\<close>

text \<open>
  \<open>buildOnlineMind2WebTestcases\<close> reads its limits from the process environment, loads
  and samples the dataset rows, and expands the rows against the requested models. The
  environment is the map \<open>env\<close> from variable names to their values.
\<close>

type_synonym environment = "string \<rightharpoonup> string"

definition maxCases :: "environment \<Rightarrow> number" where
  "maxCases env =
     (if truthy (env ''EVAL_MAX_K'') then Number (env ''EVAL_MAX_K'')
      else if truthy (env ''EVAL_ONLINEMIND2WEB_LIMIT'')
        then Number (env ''EVAL_ONLINEMIND2WEB_LIMIT'')
      else Num 25)"

definition sampleCount :: "environment \<Rightarrow> number option" where
  "sampleCount env =
     (if truthy (env ''EVAL_ONLINEMIND2WEB_SAMPLE'')
      then Some (Number (env ''EVAL_ONLINEMIND2WEB_SAMPLE''))
      else None)"

text \<open>
  A dataset row (\<open>Mind2WebRow\<close>). The keys a row holds beyond the five named ones are the
  extension of the record; the builder copies the five fields into the params.
\<close>

record mind2web_row =
  task_id :: string
  confirmed_task :: string
  website :: string
  reference_length :: "number option"
  level :: "string option"

text \<open>
  \<open>EvalInput\<close>, over the type of its params, the metadata and the \<open>Testcase\<close>. The
  fields carry the name of their object type in front (\<open>input.name\<close> is \<open>input_name\<close>,
  \<open>metadata.model\<close> is \<open>meta_model\<close>, the test case's \<open>tags\<close> is \<open>tc_tags\<close>), since
  the same property names occur in several of the objects.
\<close>

record 'p eval_input =
  input_name :: string
  input_modelName :: string
  input_params :: 'p

record metadata =
  meta_model :: string
  meta_test :: string
  meta_category :: string
  meta_categories :: "string list"
  meta_dataset :: string
  meta_task_id :: string
  meta_difficulty :: "string option"
  meta_website :: string

record testcase =
  tc_input :: "mind2web_row eval_input"
  tc_name :: string
  tc_tags :: "string list"
  tc_metadata :: metadata
  tc_expected :: bool

text \<open>
  An entry of \<open>tasksConfig\<close> (its \<open>name\<close> and \<open>categories\<close>). The table itself is
  declared in \<open>../taskConfig\<close>, outside the sources at hand, and is a parameter of the
  builder.
\<close>

record task_config =
  cfg_name :: string
  cfg_categories :: "string list"

text \<open>
  The body of the inner loop: the test case of one model and one row.
  \<open>taskCategories[0] || "agent"\<close> is \<open>"agent"\<close> when the list is empty or starts with
  the empty string.
\<close>

definition testcaseOf ::
  "task_config list \<Rightarrow> string \<Rightarrow> 'a mind2web_row_scheme \<Rightarrow> testcase" where
  "testcaseOf tasksConfig model row =
     (let input =
            \<lparr> input_name = ''agent/onlineMind2Web'',
              input_modelName = model,
              input_params =
                \<lparr> task_id = task_id row,
                  confirmed_task = confirmed_task row,
                  website = website row,
                  reference_length = reference_length row,
                  level = level row \<rparr> \<rparr>;
          taskCategories =
            (case find (\<lambda>t. cfg_name t = input_name input) tasksConfig of
               None \<Rightarrow> []
             | Some t \<Rightarrow> cfg_categories t)
      in \<lparr> tc_input = input,
           tc_name = input_name input,
           tc_tags = [model, ''mind2web''],
           tc_metadata =
             \<lparr> meta_model = model,
               meta_test = input_name input @ '':'' @ task_id row,
               meta_category =
                 (case taskCategories of
                    [] \<Rightarrow> ''agent''
                  | c # cs \<Rightarrow> if c = [] then ''agent'' else c),
               meta_categories = taskCategories,
               meta_dataset = ''onlineMind2Web'',
               meta_task_id = task_id row,
               meta_difficulty = level row,
               meta_website = website row \<rparr>,
           tc_expected = True \<rparr>)"

text \<open>
  The two nested loops over \<open>models\<close> and \<open>rows\<close>, pushing onto \<open>allTestcases\<close>.
  \<open>rows\<close> is what \<open>applySampling\<close> returned; the loader, the row parser and the sampler
  live in \<open>../utils\<close>, outside the sources at hand.
\<close>

definition buildOnlineMind2WebTestcases ::
  "task_config list \<Rightarrow> 'a mind2web_row_scheme list \<Rightarrow> string list \<Rightarrow> testcase list" where
  "buildOnlineMind2WebTestcases tasksConfig rows models =
     foldl (\<lambda>allTestcases model.
              foldl (\<lambda>allTestcases row. allTestcases @ [testcaseOf tasksConfig model row])
                allTestcases rows)
       [] models"

section \<open>The evaluation tasks\<close>

text \<open>
  \<open>webvoyager\<close>, \<open>onlineMind2Web\<close> and \<open>gaia\<close> are asynchronous functions of one
  object \<open>{stagehand, logger, debugUrl, sessionUrl, modelName, input}\<close>. Everything they
  do goes through collaborators: the page, the agent, the screenshot collector, the
  evaluator, the logger. A run is modelled as a function from the arguments and from the
  answers of the collaborators (the \<open>world\<close>, with the process environment) to the outcome, a thrown error or the
  returned result, together with the calls the run made, in order.
\<close>

subsection \<open>Arguments and results\<close>

text \<open>The params object of a run: its string-valued properties, by name.\<close>

type_synonym params = "string \<rightharpoonup> string"

text \<open>The arguments, without the two collaborators \<open>stagehand\<close> and \<open>logger\<close>.\<close>

record task_args =
  debugUrl :: string
  sessionUrl :: string
  modelName :: string
  input :: "params option eval_input option"

text \<open>A thrown value: an \<open>Error\<close> with its message.\<close>

datatype error = Error string

text \<open>What \<open>agent.execute\<close> resolves to, and what \<open>evaluator.ask\<close> resolves to.\<close>

record agent_result =
  message :: "string option"

record verdict =
  evaluation :: string
  reasoning :: string

type_synonym screenshot = string

text \<open>The argument of \<open>evaluator.ask\<close>; \<open>screenshot: false\<close> is \<open>None\<close>.\<close>

record ask_args =
  question :: string
  screenshot :: "screenshot list option"
  agentReasoning :: "string option"
  answer :: "string option"

type_synonym logline = string

text \<open>
  The object a task returns. \<open>res_success\<close> is the property \<open>_success\<close>; a property the
  object does not have is \<open>None\<close>.
\<close>

record eval_result =
  res_success :: bool
  res_error :: "string option"
  res_reasoning :: "string option"
  res_final_answer :: "string option"
  res_screenshotCount :: "nat option"
  res_task_level :: "string option"
  res_execution_time :: "int option"
  res_debugUrl :: string
  res_sessionUrl :: string
  res_logs :: "logline list"

subsection \<open>The provider registry\<close>

text \<open>
  \<open>modelToAgentProviderMap\<close> is declared in \<open>lib/agent/AgentProvider\<close>, outside the
  sources at hand, and is used as a plain object from model names to provider names. It
  is taken as the list of its own entries, model name and provider, in insertion order
  (the order of \<open>Object.keys\<close>), each name entered once.

  The prototype of a plain object is \<open>Object.prototype\<close>. The tasks test
  \<open>modelName in modelToAgentProviderMap\<close>, and the operator \<open>in\<close> follows the prototype
  chain: it holds for the names of the own entries and for the names every object
  inherits. Indexing follows the chain too: at an inherited name it gives the inherited
  member, which is not a provider name, and at any other name \<open>undefined\<close>.
\<close>

type_synonym registry = "(string \<times> string) list"

definition objectPrototypeKeys :: "string list" where
  "objectPrototypeKeys =
     [''constructor'', ''__defineGetter__'', ''__defineSetter__'', ''hasOwnProperty'',
      ''__lookupGetter__'', ''__lookupSetter__'', ''isPrototypeOf'',
      ''propertyIsEnumerable'', ''toString'', ''valueOf'', ''__proto__'',
      ''toLocaleString'']"

text \<open>\<open>key in registry\<close>.\<close>

definition key_in :: "string \<Rightarrow> registry \<Rightarrow> bool" where
  "key_in key reg = (key \<in> fst ` set reg \<or> key \<in> set objectPrototypeKeys)"

text \<open>What \<open>registry[key]\<close> evaluates to.\<close>

datatype registry_value = Provider string | Inherited string | Undefined

definition getProperty :: "registry \<Rightarrow> string \<Rightarrow> registry_value" where
  "getProperty reg key =
     (case map_of reg key of
        Some provider \<Rightarrow> Provider provider
      | None \<Rightarrow> if key \<in> set objectPrototypeKeys then Inherited key else Undefined)"

subsection \<open>The collaborators\<close>

text \<open>
  The answers of everything outside the three functions. \<open>goto\<close>, \<open>title\<close>, \<open>execute\<close>
  and \<open>ask\<close> are awaited and may reject; \<open>goto\<close> answers \<open>None\<close> when the navigation
  succeeds. \<open>modelToAgentProviderMap\<close> is the registry of the
  subsection before. \<open>stringify\<close> is \<open>JSON.stringify\<close> on the params object, whose key order
  and further properties the dataset builder fixes. \<open>startTime\<close> and \<open>endTime\<close> are the two
  readings of \<open>Date.now()\<close>, and \<open>collected\<close> is what the collector's \<open>stop()\<close> returns.
\<close>

record world =
  process_env :: environment
  modelToAgentProviderMap :: registry
  stringify :: "params \<Rightarrow> string"
  getLogs :: "logline list"
  startTime :: int
  endTime :: int
  goto :: "string \<Rightarrow> error option"
  title :: "error + string"
  loadApiKeyFromEnv :: "registry_value \<Rightarrow> string option"
  hasSetScreenshotCollector :: bool
  execute :: "string \<Rightarrow> number \<Rightarrow> error + agent_result"
  collected :: "screenshot list"
  ask :: "ask_args \<Rightarrow> error + verdict"

text \<open>The calls a run makes, with their arguments.\<close>

datatype event =
    Goto string
  | Title
  | LoadApiKeyFromEnv registry_value
  | Agent string registry_value string "string option"
  | NewScreenshotCollector nat
  | SetScreenshotCollector
  | Start
  | Execute string number
  | LogAgentResult agent_result
  | Stop
  | LogCollected string
  | Ask ask_args
  | LogEvaluatorFailed string
  | ConsoleError error
  | Close

type_synonym run = "(error + eval_result) \<times> event list"

text \<open>\<open>(input && input.params) || {}\<close>.\<close>

definition paramsOf :: "task_args \<Rightarrow> params" where
  "paramsOf a =
     (case input a of
        None \<Rightarrow> Map.empty
      | Some i \<Rightarrow> (case input_params i of None \<Rightarrow> Map.empty | Some p \<Rightarrow> p))"

text \<open>The instructions every task gives its agent, around the page title.\<close>

definition instructions :: "string \<Rightarrow> string" where
  "instructions pageTitle =
     ''You are a helpful assistant that must solve the task by browsing. At the end, '' @
     ''produce a single line: \"Final Answer: <answer>\" summarizing the requested result '' @
     ''(e.g., score, list, or text). Current page: '' @ pageTitle @
     ''. ALWAYS OPERATE WITHIN THE PAGE OPENED BY THE USER, WHICHEVER TASK YOU ARE '' @
     ''ATTEMPTING TO COMPLETE CAN BE ACCOMPLISHED WITHIN THE PAGE.''"

text \<open>The message of the result for a model without a provider.\<close>

definition unsupportedModel :: "world \<Rightarrow> string \<Rightarrow> string" where
  "unsupportedModel w m =
     ''Model '' @ m @ '' is not supported for agent tasks. Supported models: '' @
     join (map fst (modelToAgentProviderMap w)) '', ''"

text \<open>\<open>agentResult.message || "no reasoning available, ..."\<close>.\<close>

definition agentReasoningOf :: "agent_result \<Rightarrow> string" where
  "agentReasoningOf r =
     (if truthy (message r) then the (message r)
      else ''no reasoning available, agent potentially hit step limit'')"

subsection \<open>webvoyager\<close>

text \<open>
  The body of the \<open>try\<close> block. The checks come in the order of the source: the params,
  then the navigation, then the provider of the model; the collector keeps 8 screenshots;
  the step budget is \<open>Number(process.env.AGENT_EVAL_MAX_STEPS) || 75\<close>.
\<close>

definition webvoyager_try :: "world \<Rightarrow> task_args \<Rightarrow> run" where
  "webvoyager_try w a =
     (let params = paramsOf a
      in if \<not> truthy (params ''web'') \<or> \<not> truthy (params ''ques'') then
           (Inr \<lparr> res_success = False,
                  res_error = Some (''Missing WebVoyager params (web, ques). Got: '' @
                                    stringify w params),
                  res_reasoning = None, res_final_answer = None,
                  res_screenshotCount = None, res_task_level = None,
                  res_execution_time = None,
                  res_debugUrl = debugUrl a, res_sessionUrl = sessionUrl a,
                  res_logs = getLogs w \<rparr>,
            [])
         else
           let web = the (params ''web''); ques = the (params ''ques'')
           in (case goto w web of
                Some e \<Rightarrow> (Inl e, [Goto web])
              | None \<Rightarrow>
                 (if \<not> key_in (modelName a) (modelToAgentProviderMap w) then
                      (Inr \<lparr> res_success = False,
                             res_error = Some (unsupportedModel w (modelName a)),
                             res_reasoning = None, res_final_answer = None,
                             res_screenshotCount = None, res_task_level = None,
                             res_execution_time = None,
                             res_debugUrl = debugUrl a, res_sessionUrl = sessionUrl a,
                             res_logs = getLogs w \<rparr>,
                       [Goto web])
                  else
                     let provider = getProperty (modelToAgentProviderMap w) (modelName a)
                     in (case title w of
                        Inl e \<Rightarrow> (Inl e, [Goto web, Title])
                      | Inr pageTitle \<Rightarrow>
                          let setup =
                                [Goto web, Title, LoadApiKeyFromEnv provider,
                                 Agent (modelName a) provider (instructions pageTitle)
                                   (loadApiKeyFromEnv w provider),
                                 NewScreenshotCollector 8] @
                                (if hasSetScreenshotCollector w
                                 then [SetScreenshotCollector] else []) @
                                [Start];
                              maxSteps =
                                or_number (Number (process_env w ''AGENT_EVAL_MAX_STEPS''))
                                  (Num 75)
                          in (case execute w ques maxSteps of
                               Inl e \<Rightarrow> (Inl e, setup @ [Execute ques maxSteps])
                             | Inr agentResult \<Rightarrow>
                                 let screenshots = collected w;
                                     request =
                                       \<lparr> question =
                                           ''Did the agent successfully complete this task: \"'' @
                                           ques @ ''\"?'',
                                         screenshot = Some screenshots,
                                         agentReasoning = Some (agentReasoningOf agentResult),
                                         answer = None \<rparr>;
                                     calls =
                                       setup @
                                       [Execute ques maxSteps, LogAgentResult agentResult,
                                        Stop,
                                        LogCollected
                                          (''Collected '' @ decimal (length screenshots) @
                                           '' screenshots for evaluation''),
                                        Ask request]
                                 in (case ask w request of
                                      Inl e \<Rightarrow> (Inl e, calls)
                                    | Inr evalResult \<Rightarrow>
                                        (Inr \<lparr> res_success =
                                                 (evaluation evalResult = ''YES''),
                                               res_error = None,
                                               res_reasoning = Some (reasoning evalResult),
                                               res_final_answer = message agentResult,
                                               res_screenshotCount =
                                                 Some (length screenshots),
                                               res_task_level = None,
                                               res_execution_time =
                                                 Some (endTime w - startTime w),
                                               res_debugUrl = debugUrl a,
                                               res_sessionUrl = sessionUrl a,
                                               res_logs = getLogs w \<rparr>,
                                         calls)))))))"

text \<open>The \<open>catch\<close> clause prints the error and throws it again.\<close>

definition webvoyager :: "world \<Rightarrow> task_args \<Rightarrow> run" where
  "webvoyager w a =
     (case webvoyager_try w a of
        (Inl e, calls) \<Rightarrow> (Inl e, calls @ [ConsoleError e])
      | (Inr r, calls) \<Rightarrow> (Inr r, calls))"

subsection \<open>onlineMind2Web\<close>

text \<open>
  As \<open>webvoyager\<close>, on the params \<open>website\<close> and \<open>confirmed_task\<close>, with the default
  budget 80, and with one more step after the judge has answered: a \<open>NO\<close> whose
  reasoning includes \<open>access denied\<close> throws \<open>new Error("access denied")\<close>.
\<close>

definition onlineMind2Web_try :: "world \<Rightarrow> task_args \<Rightarrow> run" where
  "onlineMind2Web_try w a =
     (let params = paramsOf a
      in if \<not> truthy (params ''website'') \<or> \<not> truthy (params ''confirmed_task'') then
           (Inr \<lparr> res_success = False,
                  res_error =
                    Some (''Missing onlineMind2Web params (website, confirmed_task). Got: '' @
                          stringify w params),
                  res_reasoning = None, res_final_answer = None,
                  res_screenshotCount = None, res_task_level = None,
                  res_execution_time = None,
                  res_debugUrl = debugUrl a, res_sessionUrl = sessionUrl a,
                  res_logs = getLogs w \<rparr>,
            [])
         else
           let site = the (params ''website''); task = the (params ''confirmed_task'')
           in (case goto w site of
                Some e \<Rightarrow> (Inl e, [Goto site])
              | None \<Rightarrow>
                 (if \<not> key_in (modelName a) (modelToAgentProviderMap w) then
                      (Inr \<lparr> res_success = False,
                             res_error = Some (unsupportedModel w (modelName a)),
                             res_reasoning = None, res_final_answer = None,
                             res_screenshotCount = None, res_task_level = None,
                             res_execution_time = None,
                             res_debugUrl = debugUrl a, res_sessionUrl = sessionUrl a,
                             res_logs = getLogs w \<rparr>,
                       [Goto site])
                  else
                     let provider = getProperty (modelToAgentProviderMap w) (modelName a)
                     in (case title w of
                        Inl e \<Rightarrow> (Inl e, [Goto site, Title])
                      | Inr pageTitle \<Rightarrow>
                          let setup =
                                [Goto site, Title, LoadApiKeyFromEnv provider,
                                 Agent (modelName a) provider (instructions pageTitle)
                                   (loadApiKeyFromEnv w provider),
                                 NewScreenshotCollector 8] @
                                (if hasSetScreenshotCollector w
                                 then [SetScreenshotCollector] else []) @
                                [Start];
                              maxSteps =
                                or_number (Number (process_env w ''AGENT_EVAL_MAX_STEPS''))
                                  (Num 80)
                          in (case execute w task maxSteps of
                               Inl e \<Rightarrow> (Inl e, setup @ [Execute task maxSteps])
                             | Inr agentResult \<Rightarrow>
                                 let screenshots = collected w;
                                     request =
                                       \<lparr> question =
                                           ''Did the agent successfully complete this task: \"'' @
                                           task @ ''\"?'',
                                         screenshot = Some screenshots,
                                         agentReasoning = Some (agentReasoningOf agentResult),
                                         answer = None \<rparr>;
                                     calls =
                                       setup @
                                       [Execute task maxSteps, LogAgentResult agentResult,
                                        Stop,
                                        LogCollected
                                          (''Collected '' @ decimal (length screenshots) @
                                           '' screenshots for evaluation''),
                                        Ask request]
                                 in (case ask w request of
                                      Inl e \<Rightarrow> (Inl e, calls)
                                    | Inr evalResult \<Rightarrow>
                                        if includes_str (reasoning evalResult) ''access denied''
                                           \<and> evaluation evalResult = ''NO''
                                        then (Inl (Error ''access denied''), calls)
                                        else
                                          (Inr \<lparr> res_success =
                                                   (evaluation evalResult = ''YES''),
                                                 res_error = None,
                                                 res_reasoning = Some (reasoning evalResult),
                                                 res_final_answer = message agentResult,
                                                 res_screenshotCount =
                                                   Some (length screenshots),
                                                 res_task_level = params ''level'',
                                                 res_execution_time =
                                                   Some (endTime w - startTime w),
                                                 res_debugUrl = debugUrl a,
                                                 res_sessionUrl = sessionUrl a,
                                                 res_logs = getLogs w \<rparr>,
                                           calls)))))))"

definition onlineMind2Web :: "world \<Rightarrow> task_args \<Rightarrow> run" where
  "onlineMind2Web w a =
     (case onlineMind2Web_try w a of
        (Inl e, calls) \<Rightarrow> (Inl e, calls @ [ConsoleError e])
      | (Inr r, calls) \<Rightarrow> (Inr r, calls))"

subsection \<open>gaia\<close>

text \<open>
  No screenshots are collected: the judge gets the agent's answer and the \<open>expected\<close>
  param. The call of the judge has a \<open>try\<close> of its own, whose \<open>catch\<close> logs the message
  of the error and throws it again. The default budget is 50.
\<close>

definition gaia_try :: "world \<Rightarrow> task_args \<Rightarrow> run" where
  "gaia_try w a =
     (let params = paramsOf a
      in if \<not> truthy (params ''web'') \<or> \<not> truthy (params ''ques'') then
           (Inr \<lparr> res_success = False,
                  res_error = Some (''Missing GAIA params (web, ques). Got: '' @
                                    stringify w params),
                  res_reasoning = None, res_final_answer = None,
                  res_screenshotCount = None, res_task_level = None,
                  res_execution_time = Some (endTime w - startTime w),
                  res_debugUrl = debugUrl a, res_sessionUrl = sessionUrl a,
                  res_logs = getLogs w \<rparr>,
            [])
         else
           let web = the (params ''web''); ques = the (params ''ques'')
           in (case goto w web of
                Some e \<Rightarrow> (Inl e, [Goto web])
              | None \<Rightarrow>
                 (if \<not> key_in (modelName a) (modelToAgentProviderMap w) then
                      (Inr \<lparr> res_success = False,
                             res_error = Some (unsupportedModel w (modelName a)),
                             res_reasoning = None, res_final_answer = None,
                             res_screenshotCount = None, res_task_level = None,
                             res_execution_time = None,
                             res_debugUrl = debugUrl a, res_sessionUrl = sessionUrl a,
                             res_logs = getLogs w \<rparr>,
                       [Goto web])
                  else
                     let provider = getProperty (modelToAgentProviderMap w) (modelName a)
                     in (case title w of
                        Inl e \<Rightarrow> (Inl e, [Goto web, Title])
                      | Inr pageTitle \<Rightarrow>
                          let setup =
                                [Goto web, Title, LoadApiKeyFromEnv provider,
                                 Agent (modelName a) provider (instructions pageTitle)
                                   (loadApiKeyFromEnv w provider)];
                              maxSteps =
                                or_number (Number (process_env w ''AGENT_EVAL_MAX_STEPS''))
                                  (Num 50)
                          in (case execute w ques maxSteps of
                               Inl e \<Rightarrow> (Inl e, setup @ [Execute ques maxSteps])
                             | Inr result \<Rightarrow>
                                 let expected = params ''expected'';
                                     request =
                                       \<lparr> question =
                                           ''Did the agent provide the expected answer: \"'' @
                                           template expected @ ''\"?'',
                                         screenshot = None,
                                         agentReasoning = None,
                                         answer =
                                           Some (if truthy (message result)
                                                 then the (message result) else []) \<rparr>;
                                     calls =
                                       setup @
                                       [Execute ques maxSteps, LogAgentResult result,
                                        Ask request]
                                 in (case ask w request of
                                      Inl (Error evalError) \<Rightarrow>
                                        (Inl (Error evalError),
                                         calls @ [LogEvaluatorFailed evalError])
                                    | Inr evalResult \<Rightarrow>
                                        (Inr \<lparr> res_success =
                                                 (evaluation evalResult = ''YES''),
                                               res_error = None,
                                               res_reasoning = Some (reasoning evalResult),
                                               res_final_answer = message result,
                                               res_screenshotCount = None,
                                               res_task_level = None,
                                               res_execution_time =
                                                 Some (endTime w - startTime w),
                                               res_debugUrl = debugUrl a,
                                               res_sessionUrl = sessionUrl a,
                                               res_logs = getLogs w \<rparr>,
                                         calls)))))))"

text \<open>The \<open>finally\<close> clause closes the session on every path.\<close>

definition gaia :: "world \<Rightarrow> task_args \<Rightarrow> run" where
  "gaia w a = (case gaia_try w a of (outcome, calls) \<Rightarrow> (outcome, calls @ [Close]))"

section \<open>The screenshot collector\<close>

text \<open>
  The tasks construct a \<open>ScreenshotCollector\<close> with \<open>maxScreenshots: 8\<close>, start it
  before the agent runs and stop it afterwards. The class itself is in
  \<open>utils/ScreenshotCollector\<close>, outside the sources at hand; what follows is its
  specified behaviour.
\<close>

text \<open>
  Modelled from the spec: the states of the collector, \<open>Idle \<rightarrow> Running \<rightarrow> Stopped\<close>, of
  the missing class \<open>ScreenshotCollector\<close>.
\<close>

datatype collector_state = Idle | Running | Stopped

text \<open>
  Modelled from the spec: the collector of the missing class \<open>ScreenshotCollector\<close>, its
  state, its buffer of frames in capture order and its capacity \<open>maxScreenshots\<close>.
\<close>

record 'f collector =
  state :: collector_state
  buffer :: "'f list"
  maxScreenshots :: nat

text \<open>
  Modelled from the spec: the constructor of the missing class \<open>ScreenshotCollector\<close>;
  a new collector is idle and holds nothing.
\<close>

definition newCollector :: "nat \<Rightarrow> 'f collector" where
  "newCollector n = \<lparr> state = Idle, buffer = [], maxScreenshots = n \<rparr>"

text \<open>
  Modelled from the spec: \<open>start()\<close> of the missing class \<open>ScreenshotCollector\<close>
  takes an idle collector to \<open>Running\<close> with a fresh buffer.
\<close>

definition start :: "'f collector \<Rightarrow> 'f collector" where
  "start c = (if state c = Idle then c\<lparr> state := Running, buffer := [] \<rparr> else c)"

text \<open>
  Modelled from the spec: the eviction policy of the missing class
  \<open>ScreenshotCollector\<close>; a frame is appended, and when the capacity is exceeded the
  oldest frame is dropped.
\<close>

definition insertFrame :: "nat \<Rightarrow> 'f \<Rightarrow> 'f list \<Rightarrow> 'f list" where
  "insertFrame n f b = (let b' = b @ [f] in if n < length b' then tl b' else b')"

text \<open>
  Modelled from the spec: one capture step of the missing class \<open>ScreenshotCollector\<close>.
  An attempt that fails to read the page (\<open>None\<close>) is skipped; a frame is inserted only
  while the collector runs.
\<close>

definition capture :: "'f option \<Rightarrow> 'f collector \<Rightarrow> 'f collector" where
  "capture attempt c =
     (case attempt of
        None \<Rightarrow> c
      | Some f \<Rightarrow>
          if state c = Running
          then c\<lparr> buffer := insertFrame (maxScreenshots c) f (buffer c) \<rparr>
          else c)"

text \<open>
  Modelled from the spec: \<open>stop()\<close> of the missing class \<open>ScreenshotCollector\<close> takes a
  running collector to \<open>Stopped\<close> and returns the buffer; on any other state it changes
  nothing and returns what the buffer holds.
\<close>

definition stop :: "'f collector \<Rightarrow> 'f collector \<times> 'f list" where
  "stop c = ((if state c = Running then c\<lparr> state := Stopped \<rparr> else c), buffer c)"

text \<open>
  Modelled from the spec: the background loop of the missing class
  \<open>ScreenshotCollector\<close>, as the sequence of its capture attempts, and the frames that
  the attempts captured.
\<close>

definition captures :: "'f collector \<Rightarrow> 'f option list \<Rightarrow> 'f collector" where
  "captures c attempts = foldl (\<lambda>c attempt. capture attempt c) c attempts"

definition captured :: "'f option list \<Rightarrow> 'f list" where
  "captured attempts = List.map_filter (\<lambda>x. x) attempts"

section \<open>Example runs\<close>

text \<open>
  The arguments of a run on the dataset row of the specification's example, with the
  params of all three tasks, and a world in which every collaborator succeeds and the
  judge says \<open>YES\<close>. \<open>stringify\<close> is consulted for the empty params object only.
\<close>

definition exampleArgs :: task_args where
  "exampleArgs =
     \<lparr> debugUrl = ''https://debug.example'',
       sessionUrl = ''https://session.example'',
       modelName = ''computer-use-preview'',
       input =
         Some \<lparr> input_name = ''agent/onlineMind2Web'',
                input_modelName = ''computer-use-preview'',
                input_params =
                  Some [''web'' \<mapsto> ''https://example.com'',
                        ''ques'' \<mapsto> ''find price'',
                        ''website'' \<mapsto> ''https://example.com'',
                        ''confirmed_task'' \<mapsto> ''find price''] \<rparr> \<rparr>"

definition exampleWorld :: world where
  "exampleWorld =
     \<lparr> process_env = Map.empty,
       modelToAgentProviderMap =
         [(''computer-use-preview'', ''openai''), (''claude-sonnet-4'', ''anthropic'')],
       stringify = (\<lambda>p. ''{}''),
       getLogs = [],
       startTime = 1000,
       endTime = 61000,
       goto = (\<lambda>url. None),
       title = Inr ''Example Domain'',
       loadApiKeyFromEnv = (\<lambda>provider. Some ''sk-test''),
       hasSetScreenshotCollector = True,
       execute = (\<lambda>instruction maxSteps. Inr \<lparr> message = Some ''Final Answer: 42'' \<rparr>),
       collected = [''frame1'', ''frame2''],
       ask = (\<lambda>request. Inr \<lparr> evaluation = ''YES'', reasoning = ''The price is shown.'' \<rparr>) \<rparr>"

text \<open>The request the two screenshot-judged tasks send to the judge in that world.\<close>

definition exampleRequest :: ask_args where
  "exampleRequest =
     \<lparr> question = ''Did the agent successfully complete this task: \"find price\"?'',
       screenshot = Some [''frame1'', ''frame2''],
       agentReasoning = Some ''Final Answer: 42'',
       answer = None \<rparr>"

text \<open>The request of \<open>gaia\<close>, whose example params have no \<open>expected\<close> answer.\<close>

definition gaiaRequest :: ask_args where
  "gaiaRequest =
     \<lparr> question = ''Did the agent provide the expected answer: \"undefined\"?'',
       screenshot = None,
       agentReasoning = None,
       answer = Some ''Final Answer: 42'' \<rparr>"

text \<open>Variations of the example: arguments and worlds in which one thing goes wrong.\<close>

definition argsWithoutInput :: task_args where
  "argsWithoutInput = exampleArgs\<lparr> input := None \<rparr>"

definition unsupportedArgs :: task_args where
  "unsupportedArgs = exampleArgs\<lparr> modelName := ''gpt-4o'' \<rparr>"

definition inheritedArgs :: task_args where
  "inheritedArgs = exampleArgs\<lparr> modelName := ''toString'' \<rparr>"

definition offlineWorld :: world where
  "offlineWorld = exampleWorld\<lparr> goto := (\<lambda>url. Some (Error ''net::ERR_NAME_NOT_RESOLVED'')) \<rparr>"

definition judgeDownWorld :: world where
  "judgeDownWorld = exampleWorld\<lparr> ask := (\<lambda>request. Inl (Error ''judge unreachable'')) \<rparr>"

definition accessDeniedWorld :: world where
  "accessDeniedWorld =
     exampleWorld\<lparr> ask := (\<lambda>request. Inr \<lparr> evaluation = ''NO'',
                                              reasoning = ''The site answered: access denied.'' \<rparr>) \<rparr>"

definition overrideWorld :: "string \<Rightarrow> world" where
  "overrideWorld v = exampleWorld\<lparr> process_env := [''AGENT_EVAL_MAX_STEPS'' \<mapsto> v] \<rparr>"

text \<open>The dataset row and the task table of the specification's example scenario.\<close>

definition exampleRow :: mind2web_row where
  "exampleRow =
     \<lparr> task_id = ''t1'', confirmed_task = ''find price'', website = ''https://example.com'',
       reference_length = None, level = None \<rparr>"

definition exampleTasksConfig :: "task_config list" where
  "exampleTasksConfig =
     [\<lparr> cfg_name = ''agent/gaia'', cfg_categories = [''external_agent_benchmarks''] \<rparr>]"

section \<open>Evaluating the model\<close>

text \<open>
  The definitions to unfold when a run or a conversion is evaluated on a concrete input.
\<close>

lemmas number_eval =
  Number_def StringToNumber_def trimString_def isStrWhiteSpaceChar_def
  strUnsignedDecimalLiteral_def nonDecimalIntegerLiteral_def signedInteger_def
  isDigitOf_def digitValue_def digitsValue_def roundToDouble_def floorLog2_def pow2_def
  roundHalfEven_def bitLength.simps Let_def

lemmas example_defs = exampleArgs_def exampleWorld_def

lemmas task_defs =
  webvoyager_def webvoyager_try_def onlineMind2Web_def onlineMind2Web_try_def
  gaia_def gaia_try_def

lemmas task_eval =
  task_defs paramsOf_def truthy_def agentReasoningOf_def template_def unsupportedModel_def
  key_in_def getProperty_def objectPrototypeKeys_def Let_def

lemma key_in_entry: "map_of reg key = Some p \<Longrightarrow> key_in key reg"
  by (auto simp add: key_in_def dest!: map_of_SomeD intro: rev_image_eqI)

lemma not_key_in:
  "key \<notin> fst ` set reg \<Longrightarrow> key \<notin> set objectPrototypeKeys \<Longrightarrow> \<not> key_in key reg"
  by (simp add: key_in_def)

lemma Number_undefined: "Number None = NaN"
  by (simp add: Number_def)

lemma Number_zero: "Number (Some ''0'') = Num 0"
  by (simp add: number_eval)

lemma Number_text: "Number (Some ''abc'') = NaN"
  by (simp add: number_eval)

lemma Number_thirty: "Number (Some ''30'') = Num 30"
  by (simp add: number_eval)

lemma Number_five: "Number (Some ''5'') = Num 5"
  by (simp add: number_eval)

lemma Number_ten: "Number (Some ''10'') = Num 10"
  by (simp add: number_eval)

section \<open>Missing params\<close>

text \<open>
  C1. In each of the three tasks the check of the required params comes first. When one
  of them is missing (absent or empty: \<open>web\<close> and \<open>ques\<close> for \<open>webvoyager\<close> and \<open>gaia\<close>,
  \<open>website\<close> and \<open>confirmed_task\<close> for \<open>onlineMind2Web\<close>), the task returns a result
  with \<open>_success: false\<close> and the missing-params message, and the run has made no call
  at all: no navigation, no agent. (\<open>gaia\<close> still closes the session in its \<open>finally\<close>.)
\<close>

theorem missing_params_structured_failure:
  "(\<not> truthy (paramsOf a ''web'') \<or> \<not> truthy (paramsOf a ''ques'') \<longrightarrow>
      (\<exists>r. webvoyager w a = (Inr r, []) \<and> \<not> res_success r
           \<and> res_error r = Some (''Missing WebVoyager params (web, ques). Got: '' @
                                  stringify w (paramsOf a))))
   \<and> (\<not> truthy (paramsOf a ''website'') \<or> \<not> truthy (paramsOf a ''confirmed_task'') \<longrightarrow>
      (\<exists>r. onlineMind2Web w a = (Inr r, []) \<and> \<not> res_success r
           \<and> res_error r =
               Some (''Missing onlineMind2Web params (website, confirmed_task). Got: '' @
                     stringify w (paramsOf a))))
   \<and> (\<not> truthy (paramsOf a ''web'') \<or> \<not> truthy (paramsOf a ''ques'') \<longrightarrow>
      (\<exists>r. gaia w a = (Inr r, [Close]) \<and> \<not> res_success r
           \<and> res_error r = Some (''Missing GAIA params (web, ques). Got: '' @
                                  stringify w (paramsOf a))))"
  by (auto simp add: task_defs Let_def)

theorem missing_params_structured_failure_witness:
  "\<not> truthy (paramsOf argsWithoutInput ''web'')
   \<and> \<not> truthy (paramsOf argsWithoutInput ''website'')
   \<and> (\<exists>r. webvoyager exampleWorld argsWithoutInput = (Inr r, []) \<and> \<not> res_success r
          \<and> res_error r = Some ''Missing WebVoyager params (web, ques). Got: {}'')
   \<and> (\<exists>r. onlineMind2Web exampleWorld argsWithoutInput = (Inr r, []) \<and> \<not> res_success r
          \<and> res_error r =
              Some ''Missing onlineMind2Web params (website, confirmed_task). Got: {}'')
   \<and> (\<exists>r. gaia exampleWorld argsWithoutInput = (Inr r, [Close]) \<and> \<not> res_success r
          \<and> res_error r = Some ''Missing GAIA params (web, ques). Got: {}'')"
  using missing_params_structured_failure [of argsWithoutInput exampleWorld]
  by (simp add: paramsOf_def truthy_def example_defs argsWithoutInput_def)

section \<open>The judge\<close>

text \<open>
  C3. In each of the three tasks, when the call of the judge (\<open>evaluator.ask\<close>) was made
  and failed with an error, the task throws that very error: no result is returned, so
  the failure is not turned into a negative verdict. (\<open>gaia\<close> logs the message before it
  throws again.)
\<close>

theorem judge_failure_propagates:
  "(Ask q \<in> set (snd (webvoyager w a)) \<and> ask w q = Inl e \<longrightarrow> fst (webvoyager w a) = Inl e)
   \<and> (Ask q \<in> set (snd (onlineMind2Web w a)) \<and> ask w q = Inl e \<longrightarrow>
        fst (onlineMind2Web w a) = Inl e)
   \<and> (Ask q \<in> set (snd (gaia w a)) \<and> ask w q = Inl e \<longrightarrow> fst (gaia w a) = Inl e)"
proof (intro conjI impI)
  assume "Ask q \<in> set (snd (webvoyager w a)) \<and> ask w q = Inl e"
  then show "fst (webvoyager w a) = Inl e"
    by (auto simp add: webvoyager_def webvoyager_try_def Let_def
        split: if_splits option.splits sum.splits)
next
  assume "Ask q \<in> set (snd (onlineMind2Web w a)) \<and> ask w q = Inl e"
  then show "fst (onlineMind2Web w a) = Inl e"
    by (auto simp add: onlineMind2Web_def onlineMind2Web_try_def Let_def
        split: if_splits option.splits sum.splits)
next
  assume "Ask q \<in> set (snd (gaia w a)) \<and> ask w q = Inl e"
  then show "fst (gaia w a) = Inl e"
    by (auto simp add: gaia_def gaia_try_def Let_def
        split: if_splits option.splits sum.splits error.splits)
qed

lemma example_asks:
  "Ask exampleRequest \<in> set (snd (webvoyager judgeDownWorld exampleArgs))"
  "Ask exampleRequest \<in> set (snd (onlineMind2Web judgeDownWorld exampleArgs))"
  "Ask gaiaRequest \<in> set (snd (gaia judgeDownWorld exampleArgs))"
  by (simp_all add: task_eval example_defs exampleRequest_def gaiaRequest_def
      judgeDownWorld_def Number_undefined or_number_def truthy_number_def)

theorem judge_failure_propagates_witness:
  "Ask exampleRequest \<in> set (snd (webvoyager judgeDownWorld exampleArgs))
   \<and> Ask exampleRequest \<in> set (snd (onlineMind2Web judgeDownWorld exampleArgs))
   \<and> Ask gaiaRequest \<in> set (snd (gaia judgeDownWorld exampleArgs))
   \<and> ask judgeDownWorld exampleRequest = Inl (Error ''judge unreachable'')
   \<and> ask judgeDownWorld gaiaRequest = Inl (Error ''judge unreachable'')
   \<and> fst (webvoyager judgeDownWorld exampleArgs) = Inl (Error ''judge unreachable'')
   \<and> fst (onlineMind2Web judgeDownWorld exampleArgs) = Inl (Error ''judge unreachable'')
   \<and> fst (gaia judgeDownWorld exampleArgs) = Inl (Error ''judge unreachable'')"
  using judge_failure_propagates
          [of exampleRequest judgeDownWorld exampleArgs "Error ''judge unreachable''"]
        judge_failure_propagates
          [of gaiaRequest judgeDownWorld exampleArgs "Error ''judge unreachable''"]
        example_asks
  by (simp add: judgeDownWorld_def exampleWorld_def)


text \<open>
  C2. A verdict \<open>NO\<close> whose reasoning includes \<open>access denied\<close> is an infrastructure
  failure in \<open>onlineMind2Web\<close>, which throws \<open>Error("access denied")\<close>. \<open>webvoyager\<close>,
  the other screenshot-judged task, has no such step: on the same answer of the judge it
  returns the plain negative verdict, \<open>_success: false\<close> with the judge's reasoning.
\<close>

theorem webvoyager_access_denied_is_plain_verdict:
  "ask accessDeniedWorld exampleRequest
     = Inr \<lparr> evaluation = ''NO'', reasoning = ''The site answered: access denied.'' \<rparr>
   \<and> includes_str ''The site answered: access denied.'' ''access denied''
   \<and> Ask exampleRequest \<in> set (snd (webvoyager accessDeniedWorld exampleArgs))
   \<and> fst (webvoyager accessDeniedWorld exampleArgs)
       = Inr \<lparr> res_success = False, res_error = None,
               res_reasoning = Some ''The site answered: access denied.'',
               res_final_answer = Some ''Final Answer: 42'',
               res_screenshotCount = Some 2, res_task_level = None,
               res_execution_time = Some 60000,
               res_debugUrl = ''https://debug.example'',
               res_sessionUrl = ''https://session.example'', res_logs = [] \<rparr>
   \<and> fst (onlineMind2Web accessDeniedWorld exampleArgs) = Inl (Error ''access denied'')"
  by (simp add: task_eval example_defs exampleRequest_def accessDeniedWorld_def
      Number_undefined or_number_def truthy_number_def)


text \<open>
  What \<open>onlineMind2Web\<close> does with such a verdict, in every world: once the judge has
  answered \<open>NO\<close> with a reasoning that includes \<open>access denied\<close>, the task throws
  \<open>Error("access denied")\<close>.
\<close>

theorem onlineMind2Web_access_denied:
  assumes "Ask q \<in> set (snd (onlineMind2Web w a))" and "ask w q = Inr v"
    and "evaluation v = ''NO''" and "includes_str (reasoning v) ''access denied''"
  shows "fst (onlineMind2Web w a) = Inl (Error ''access denied'')"
  using assms
  by (auto simp add: onlineMind2Web_def onlineMind2Web_try_def Let_def
      split: if_splits option.splits sum.splits)


theorem onlineMind2Web_access_denied_witness:
  "Ask exampleRequest \<in> set (snd (onlineMind2Web accessDeniedWorld exampleArgs))
   \<and> ask accessDeniedWorld exampleRequest
       = Inr \<lparr> evaluation = ''NO'', reasoning = ''The site answered: access denied.'' \<rparr>
   \<and> includes_str ''The site answered: access denied.'' ''access denied''
   \<and> fst (onlineMind2Web accessDeniedWorld exampleArgs) = Inl (Error ''access denied'')"
proof -
  have a: "Ask exampleRequest \<in> set (snd (onlineMind2Web accessDeniedWorld exampleArgs))"
    by (simp add: task_eval example_defs exampleRequest_def accessDeniedWorld_def
      Number_undefined or_number_def truthy_number_def)
  have b: "ask accessDeniedWorld exampleRequest
       = Inr \<lparr> evaluation = ''NO'', reasoning = ''The site answered: access denied.'' \<rparr>"
    by (simp add: example_defs exampleRequest_def accessDeniedWorld_def)
  have c: "includes_str ''The site answered: access denied.'' ''access denied''"
    by simp
  from onlineMind2Web_access_denied [OF a b] a b c show ?thesis by simp
qed

text \<open>
  The \<open>finally\<close> clause of \<open>gaia\<close>: whatever the outcome, the last call of a run closes
  the session, and it is the only such call.
\<close>

theorem gaia_closes_session:
  "snd (gaia w a) \<noteq> [] \<and> last (snd (gaia w a)) = Close
   \<and> Close \<notin> set (butlast (snd (gaia w a)))"
  by (simp add: gaia_def gaia_try_def Let_def
      split: prod.splits if_splits option.splits sum.splits error.splits)

section \<open>Models without a provider\<close>

text \<open>
  The navigation comes before the model is looked at: with the params present, a
  navigation that fails ends the run with its error, whatever the model.
\<close>

lemma webvoyager_navigation_fails:
  assumes "truthy (paramsOf a ''web'')" and "truthy (paramsOf a ''ques'')"
    and "goto w (the (paramsOf a ''web'')) = Some e"
  shows "webvoyager w a = (Inl e, [Goto (the (paramsOf a ''web'')), ConsoleError e])"
  using assms by (simp add: webvoyager_def webvoyager_try_def Let_def)

lemma onlineMind2Web_navigation_fails:
  assumes "truthy (paramsOf a ''website'')" and "truthy (paramsOf a ''confirmed_task'')"
    and "goto w (the (paramsOf a ''website'')) = Some e"
  shows "onlineMind2Web w a
           = (Inl e, [Goto (the (paramsOf a ''website'')), ConsoleError e])"
  using assms by (simp add: onlineMind2Web_def onlineMind2Web_try_def Let_def)

lemma gaia_navigation_fails:
  assumes "truthy (paramsOf a ''web'')" and "truthy (paramsOf a ''ques'')"
    and "goto w (the (paramsOf a ''web'')) = Some e"
  shows "gaia w a = (Inl e, [Goto (the (paramsOf a ''web'')), Close])"
  using assms by (simp add: gaia_def gaia_try_def Let_def)

text \<open>A model name that fails the test \<open>in\<close> never gets to the agent.\<close>

lemma no_execute_without_provider:
  assumes "\<not> key_in (modelName a) (modelToAgentProviderMap w)"
  shows "Execute i n \<notin> set (snd (webvoyager w a))"
    and "Execute i n \<notin> set (snd (onlineMind2Web w a))"
    and "Execute i n \<notin> set (snd (gaia w a))"
  using assms
  by (auto simp add: task_defs Let_def split: option.splits)

lemma failure_without_provider:
  assumes "\<not> key_in (modelName a) (modelToAgentProviderMap w)"
  shows "truthy (paramsOf a ''web'') \<and> truthy (paramsOf a ''ques'')
          \<and> goto w (the (paramsOf a ''web'')) = None \<longrightarrow>
          (\<exists>r. fst (webvoyager w a) = Inr r \<and> \<not> res_success r
               \<and> res_error r =
                   Some (''Model '' @ modelName a @
                         '' is not supported for agent tasks. Supported models: '' @
                         join (map fst (modelToAgentProviderMap w)) '', ''))"
    and "truthy (paramsOf a ''website'') \<and> truthy (paramsOf a ''confirmed_task'')
          \<and> goto w (the (paramsOf a ''website'')) = None \<longrightarrow>
          (\<exists>r. fst (onlineMind2Web w a) = Inr r \<and> \<not> res_success r
               \<and> res_error r =
                   Some (''Model '' @ modelName a @
                         '' is not supported for agent tasks. Supported models: '' @
                         join (map fst (modelToAgentProviderMap w)) '', ''))"
    and "truthy (paramsOf a ''web'') \<and> truthy (paramsOf a ''ques'')
          \<and> goto w (the (paramsOf a ''web'')) = None \<longrightarrow>
          (\<exists>r. fst (gaia w a) = Inr r \<and> \<not> res_success r
               \<and> res_error r =
                   Some (''Model '' @ modelName a @
                         '' is not supported for agent tasks. Supported models: '' @
                         join (map fst (modelToAgentProviderMap w)) '', ''))"
  using assms
  by (simp_all add: task_defs unsupportedModel_def Let_def)

text \<open>
  C4, as amended. Take a model name for which \<open>modelName in modelToAgentProviderMap\<close> is
  false: the registry has no entry of that name, and the name is not one that every
  object inherits from \<open>Object.prototype\<close>. Then none of the three tasks ever calls the
  agent's \<open>execute\<close>. The check of the model comes after the check of the params and after
  the navigation: when the required params are present and the navigation succeeds, the
  task returns a result with \<open>_success: false\<close> whose error message names the model and
  lists the supported models; when the required params are present and the navigation
  fails, the task throws the error of the navigation.
\<close>

theorem unsupported_model_short_circuit:
  assumes "modelName a \<notin> fst ` set (modelToAgentProviderMap w)"
    and "modelName a \<notin> set objectPrototypeKeys"
  shows
    "(\<forall>i n. Execute i n \<notin> set (snd (webvoyager w a)))
     \<and> (\<forall>i n. Execute i n \<notin> set (snd (onlineMind2Web w a)))
     \<and> (\<forall>i n. Execute i n \<notin> set (snd (gaia w a)))
     \<and> (truthy (paramsOf a ''web'') \<and> truthy (paramsOf a ''ques'')
          \<and> goto w (the (paramsOf a ''web'')) = None \<longrightarrow>
          (\<exists>r. fst (webvoyager w a) = Inr r \<and> \<not> res_success r
               \<and> res_error r =
                   Some (''Model '' @ modelName a @
                         '' is not supported for agent tasks. Supported models: '' @
                         join (map fst (modelToAgentProviderMap w)) '', '')))
     \<and> (truthy (paramsOf a ''website'') \<and> truthy (paramsOf a ''confirmed_task'')
          \<and> goto w (the (paramsOf a ''website'')) = None \<longrightarrow>
          (\<exists>r. fst (onlineMind2Web w a) = Inr r \<and> \<not> res_success r
               \<and> res_error r =
                   Some (''Model '' @ modelName a @
                         '' is not supported for agent tasks. Supported models: '' @
                         join (map fst (modelToAgentProviderMap w)) '', '')))
     \<and> (truthy (paramsOf a ''web'') \<and> truthy (paramsOf a ''ques'')
          \<and> goto w (the (paramsOf a ''web'')) = None \<longrightarrow>
          (\<exists>r. fst (gaia w a) = Inr r \<and> \<not> res_success r
               \<and> res_error r =
                   Some (''Model '' @ modelName a @
                         '' is not supported for agent tasks. Supported models: '' @
                         join (map fst (modelToAgentProviderMap w)) '', '')))
     \<and> (truthy (paramsOf a ''web'') \<and> truthy (paramsOf a ''ques'')
          \<and> goto w (the (paramsOf a ''web'')) = Some e \<longrightarrow>
          fst (webvoyager w a) = Inl e \<and> fst (gaia w a) = Inl e)
     \<and> (truthy (paramsOf a ''website'') \<and> truthy (paramsOf a ''confirmed_task'')
          \<and> goto w (the (paramsOf a ''website'')) = Some e \<longrightarrow>
          fst (onlineMind2Web w a) = Inl e)"
proof -
  from assms have none: "\<not> key_in (modelName a) (modelToAgentProviderMap w)"
    by (rule not_key_in)
  have "truthy (paramsOf a ''web'') \<and> truthy (paramsOf a ''ques'')
          \<and> goto w (the (paramsOf a ''web'')) = Some e \<longrightarrow>
          fst (webvoyager w a) = Inl e \<and> fst (gaia w a) = Inl e"
    by (simp add: webvoyager_navigation_fails gaia_navigation_fails)
  moreover have "truthy (paramsOf a ''website'') \<and> truthy (paramsOf a ''confirmed_task'')
          \<and> goto w (the (paramsOf a ''website'')) = Some e \<longrightarrow>
          fst (onlineMind2Web w a) = Inl e"
    by (simp add: onlineMind2Web_navigation_fails)
  ultimately show ?thesis
    using no_execute_without_provider [OF none] failure_without_provider [OF none]
    by blast
qed

theorem unsupported_model_short_circuit_witness:
  "modelName unsupportedArgs \<notin> fst ` set (modelToAgentProviderMap exampleWorld)
   \<and> modelName unsupportedArgs \<notin> fst ` set (modelToAgentProviderMap offlineWorld)
   \<and> modelName unsupportedArgs \<notin> set objectPrototypeKeys
   \<and> truthy (paramsOf unsupportedArgs ''web'') \<and> truthy (paramsOf unsupportedArgs ''ques'')
   \<and> truthy (paramsOf unsupportedArgs ''website'')
   \<and> truthy (paramsOf unsupportedArgs ''confirmed_task'')
   \<and> goto exampleWorld (the (paramsOf unsupportedArgs ''web'')) = None
   \<and> goto exampleWorld (the (paramsOf unsupportedArgs ''website'')) = None
   \<and> goto offlineWorld (the (paramsOf unsupportedArgs ''web''))
       = Some (Error ''net::ERR_NAME_NOT_RESOLVED'')
   \<and> goto offlineWorld (the (paramsOf unsupportedArgs ''website''))
       = Some (Error ''net::ERR_NAME_NOT_RESOLVED'')
   \<and> Execute ''find price'' (Num 75) \<notin> set (snd (webvoyager exampleWorld unsupportedArgs))
   \<and> (\<exists>r. fst (webvoyager exampleWorld unsupportedArgs) = Inr r \<and> \<not> res_success r
          \<and> res_error r =
              Some (''Model gpt-4o is not supported for agent tasks. '' @
                    ''Supported models: computer-use-preview, claude-sonnet-4''))
   \<and> (\<exists>r. fst (onlineMind2Web exampleWorld unsupportedArgs) = Inr r \<and> \<not> res_success r
          \<and> res_error r =
              Some (''Model gpt-4o is not supported for agent tasks. '' @
                    ''Supported models: computer-use-preview, claude-sonnet-4''))
   \<and> (\<exists>r. fst (gaia exampleWorld unsupportedArgs) = Inr r \<and> \<not> res_success r
          \<and> res_error r =
              Some (''Model gpt-4o is not supported for agent tasks. '' @
                    ''Supported models: computer-use-preview, claude-sonnet-4''))
   \<and> fst (webvoyager offlineWorld unsupportedArgs) = Inl (Error ''net::ERR_NAME_NOT_RESOLVED'')
   \<and> fst (onlineMind2Web offlineWorld unsupportedArgs)
       = Inl (Error ''net::ERR_NAME_NOT_RESOLVED'')
   \<and> fst (gaia offlineWorld unsupportedArgs) = Inl (Error ''net::ERR_NAME_NOT_RESOLVED'')"
proof -
  have h1: "modelName unsupportedArgs \<notin> fst ` set (modelToAgentProviderMap exampleWorld)"
    and h1': "modelName unsupportedArgs \<notin> fst ` set (modelToAgentProviderMap offlineWorld)"
    and h2: "modelName unsupportedArgs \<notin> set objectPrototypeKeys"
    by (simp_all add: example_defs unsupportedArgs_def offlineWorld_def
        objectPrototypeKeys_def)
  note online =
    unsupported_model_short_circuit [OF h1 h2, of "Error ''net::ERR_NAME_NOT_RESOLVED''"]
  note offline =
    unsupported_model_short_circuit [OF h1' h2, of "Error ''net::ERR_NAME_NOT_RESOLVED''"]
  from h1 h1' h2 online offline show ?thesis
    by (simp add: paramsOf_def truthy_def example_defs unsupportedArgs_def offlineWorld_def)
qed

text \<open>
  The claim as first stated has the task return that result for every model name without
  an entry in the registry. It does not when the navigation fails: the error of \<open>goto\<close>
  is thrown before the model is looked at. And it does not for the name \<open>toString\<close>,
  which has no entry and still passes the test \<open>in\<close>: the task goes on to the agent.
\<close>

theorem unsupported_model_counterexample:
  "modelName unsupportedArgs \<notin> fst ` set (modelToAgentProviderMap offlineWorld)
   \<and> truthy (paramsOf unsupportedArgs ''web'') \<and> truthy (paramsOf unsupportedArgs ''ques'')
   \<and> webvoyager offlineWorld unsupportedArgs
       = (Inl (Error ''net::ERR_NAME_NOT_RESOLVED''),
          [Goto ''https://example.com'', ConsoleError (Error ''net::ERR_NAME_NOT_RESOLVED'')])
   \<and> modelName inheritedArgs \<notin> fst ` set (modelToAgentProviderMap exampleWorld)
   \<and> Execute ''find price'' (Num 75) \<in> set (snd (webvoyager exampleWorld inheritedArgs))
   \<and> (\<exists>r. fst (webvoyager exampleWorld inheritedArgs) = Inr r \<and> res_success r)"
  by (simp add: task_eval example_defs unsupportedArgs_def inheritedArgs_def offlineWorld_def
      Number_undefined or_number_def truthy_number_def)


section \<open>The step budget\<close>

text \<open>
  Every call of \<open>execute\<close> carries \<open>Number(process.env.AGENT_EVAL_MAX_STEPS) || d\<close>, with
  \<open>d\<close> the default of the task, and a run that gets past the checks and the setup of the
  agent makes that call.
\<close>

lemma webvoyager_budget:
  "Execute i n \<in> set (snd (webvoyager w a)) \<Longrightarrow>
     n = or_number (Number (process_env w ''AGENT_EVAL_MAX_STEPS'')) (Num 75)"
  by (auto simp add: webvoyager_def webvoyager_try_def Let_def
      split: if_splits option.splits sum.splits)

lemma onlineMind2Web_budget:
  "Execute i n \<in> set (snd (onlineMind2Web w a)) \<Longrightarrow>
     n = or_number (Number (process_env w ''AGENT_EVAL_MAX_STEPS'')) (Num 80)"
  by (auto simp add: onlineMind2Web_def onlineMind2Web_try_def Let_def
      split: if_splits option.splits sum.splits)

lemma gaia_budget:
  "Execute i n \<in> set (snd (gaia w a)) \<Longrightarrow>
     n = or_number (Number (process_env w ''AGENT_EVAL_MAX_STEPS'')) (Num 50)"
  by (auto simp add: gaia_def gaia_try_def Let_def
      split: if_splits option.splits sum.splits error.splits)

lemma webvoyager_executes:
  assumes "truthy (paramsOf a ''web'')" and "truthy (paramsOf a ''ques'')"
    and "goto w (the (paramsOf a ''web'')) = None"
    and "map_of (modelToAgentProviderMap w) (modelName a) = Some p"
    and "title w = Inr t"
  shows "Execute (the (paramsOf a ''ques''))
           (or_number (Number (process_env w ''AGENT_EVAL_MAX_STEPS'')) (Num 75))
         \<in> set (snd (webvoyager w a))"
  using assms key_in_entry [of "modelToAgentProviderMap w" "modelName a" p]
  by (simp add: webvoyager_def webvoyager_try_def Let_def split: sum.splits)

lemma onlineMind2Web_executes:
  assumes "truthy (paramsOf a ''website'')" and "truthy (paramsOf a ''confirmed_task'')"
    and "goto w (the (paramsOf a ''website'')) = None"
    and "map_of (modelToAgentProviderMap w) (modelName a) = Some p"
    and "title w = Inr t"
  shows "Execute (the (paramsOf a ''confirmed_task''))
           (or_number (Number (process_env w ''AGENT_EVAL_MAX_STEPS'')) (Num 80))
         \<in> set (snd (onlineMind2Web w a))"
  using assms key_in_entry [of "modelToAgentProviderMap w" "modelName a" p]
  by (simp add: onlineMind2Web_def onlineMind2Web_try_def Let_def split: sum.splits)

lemma gaia_executes:
  assumes "truthy (paramsOf a ''web'')" and "truthy (paramsOf a ''ques'')"
    and "goto w (the (paramsOf a ''web'')) = None"
    and "map_of (modelToAgentProviderMap w) (modelName a) = Some p"
    and "title w = Inr t"
  shows "Execute (the (paramsOf a ''ques''))
           (or_number (Number (process_env w ''AGENT_EVAL_MAX_STEPS'')) (Num 50))
         \<in> set (snd (gaia w a))"
  using assms key_in_entry [of "modelToAgentProviderMap w" "modelName a" p]
  by (simp add: gaia_def gaia_try_def Let_def split: sum.splits error.splits)

lemma budget_cases:
  "or_number (Number v) d = (if truthy_number (Number v) then Number v else d)"
  by (simp add: or_number_def)

lemma example_executes:
  "Execute ''find price'' (or_number (Number (Some v)) (Num 75))
     \<in> set (snd (webvoyager (overrideWorld v) exampleArgs))"
  "Execute ''find price'' (or_number (Number (Some v)) (Num 80))
     \<in> set (snd (onlineMind2Web (overrideWorld v) exampleArgs))"
  "Execute ''find price'' (or_number (Number (Some v)) (Num 50))
     \<in> set (snd (gaia (overrideWorld v) exampleArgs))"
  by (simp_all add: task_eval example_defs overrideWorld_def)


text \<open>
  C8, as amended. In each task the step budget handed to the agent is the number the
  override \<open>AGENT_EVAL_MAX_STEPS\<close> converts to when that number is truthy (neither zero
  nor not-a-number), and otherwise the default of the dataset: 75 for \<open>webvoyager\<close>, 80
  for \<open>onlineMind2Web\<close>, 50 for \<open>gaia\<close>. Without an override the conversion is
  not-a-number, so the default applies. And the agent does run: when the required params
  are present, the navigation succeeds, the model has a provider and the page gives its
  title, the task calls \<open>execute\<close> with its instruction.
\<close>

theorem step_budget:
  "(Execute i n \<in> set (snd (webvoyager w a)) \<longrightarrow>
      n = (if truthy_number (Number (process_env w ''AGENT_EVAL_MAX_STEPS''))
           then Number (process_env w ''AGENT_EVAL_MAX_STEPS'') else Num 75))
   \<and> (Execute i n \<in> set (snd (onlineMind2Web w a)) \<longrightarrow>
      n = (if truthy_number (Number (process_env w ''AGENT_EVAL_MAX_STEPS''))
           then Number (process_env w ''AGENT_EVAL_MAX_STEPS'') else Num 80))
   \<and> (Execute i n \<in> set (snd (gaia w a)) \<longrightarrow>
      n = (if truthy_number (Number (process_env w ''AGENT_EVAL_MAX_STEPS''))
           then Number (process_env w ''AGENT_EVAL_MAX_STEPS'') else Num 50))
   \<and> (process_env w ''AGENT_EVAL_MAX_STEPS'' = None \<longrightarrow>
        \<not> truthy_number (Number (process_env w ''AGENT_EVAL_MAX_STEPS'')))
   \<and> (truthy (paramsOf a ''web'') \<and> truthy (paramsOf a ''ques'')
        \<and> goto w (the (paramsOf a ''web'')) = None
        \<and> map_of (modelToAgentProviderMap w) (modelName a) = Some p \<and> title w = Inr t \<longrightarrow>
        (\<exists>n. Execute (the (paramsOf a ''ques'')) n \<in> set (snd (webvoyager w a)))
        \<and> (\<exists>n. Execute (the (paramsOf a ''ques'')) n \<in> set (snd (gaia w a))))
   \<and> (truthy (paramsOf a ''website'') \<and> truthy (paramsOf a ''confirmed_task'')
        \<and> goto w (the (paramsOf a ''website'')) = None
        \<and> map_of (modelToAgentProviderMap w) (modelName a) = Some p \<and> title w = Inr t \<longrightarrow>
        (\<exists>n. Execute (the (paramsOf a ''confirmed_task'')) n
               \<in> set (snd (onlineMind2Web w a))))"
  using webvoyager_budget [of i n w a] onlineMind2Web_budget [of i n w a]
    gaia_budget [of i n w a] webvoyager_executes [of a w p t]
    onlineMind2Web_executes [of a w p t] gaia_executes [of a w p t]
  by (auto simp add: budget_cases Number_undefined truthy_number_def)

theorem step_budget_witness:
  "Execute ''find price'' (Num 30) \<in> set (snd (webvoyager (overrideWorld ''30'') exampleArgs))
   \<and> Execute ''find price'' (Num 30)
        \<in> set (snd (onlineMind2Web (overrideWorld ''30'') exampleArgs))
   \<and> Execute ''find price'' (Num 30) \<in> set (snd (gaia (overrideWorld ''30'') exampleArgs))
   \<and> Number (process_env (overrideWorld ''30'') ''AGENT_EVAL_MAX_STEPS'') = Num 30
   \<and> truthy_number (Number (process_env (overrideWorld ''30'') ''AGENT_EVAL_MAX_STEPS''))
   \<and> process_env exampleWorld ''AGENT_EVAL_MAX_STEPS'' = None
   \<and> Execute ''find price'' (Num 75) \<in> set (snd (webvoyager exampleWorld exampleArgs))"
proof -
  note override =
    step_budget [of "''find price''" "Num 30" "overrideWorld ''30''" exampleArgs
      "''openai''" "''Example Domain''"]
  note default =
    step_budget [of "''find price''" "Num 75" exampleWorld exampleArgs
      "''openai''" "''Example Domain''"]
  have thirty: "Number (process_env (overrideWorld ''30'') ''AGENT_EVAL_MAX_STEPS'') = Num 30"
    by (simp add: overrideWorld_def Number_thirty)
  have unset: "process_env exampleWorld ''AGENT_EVAL_MAX_STEPS'' = None"
    by (simp add: exampleWorld_def)
  have runs:
    "Execute ''find price'' (Num 30) \<in> set (snd (webvoyager (overrideWorld ''30'') exampleArgs))"
    "Execute ''find price'' (Num 30)
       \<in> set (snd (onlineMind2Web (overrideWorld ''30'') exampleArgs))"
    "Execute ''find price'' (Num 30) \<in> set (snd (gaia (overrideWorld ''30'') exampleArgs))"
    using example_executes [of "''30''"]
    by (simp_all add: Number_thirty or_number_def truthy_number_def)
  have runs_default:
    "Execute ''find price'' (Num 75) \<in> set (snd (webvoyager exampleWorld exampleArgs))"
    by (simp add: task_eval example_defs Number_undefined or_number_def truthy_number_def)
  from override default thirty unset runs runs_default show ?thesis
    by (simp add: truthy_number_def)
qed

text \<open>
  The claim as first stated has the budget equal the override whenever one is given. The
  override \<open>0\<close> is given and converts to the number 0, and the agent runs with 75 steps.
\<close>

theorem step_budget_zero_override_counterexample:
  "process_env (overrideWorld ''0'') ''AGENT_EVAL_MAX_STEPS'' = Some ''0''
   \<and> Number (Some ''0'') = Num 0
   \<and> Execute ''find price'' (Num 75) \<in> set (snd (webvoyager (overrideWorld ''0'') exampleArgs))
   \<and> Execute ''find price'' (Num 0) \<notin> set (snd (webvoyager (overrideWorld ''0'') exampleArgs))"
  by (simp add: task_eval example_defs overrideWorld_def Number_zero or_number_def truthy_number_def)


text \<open>
  C10. When the override converts to zero (of either sign) or to not-a-number, as the
  strings \<open>0\<close> and \<open>abc\<close> do, each task runs its agent with the default budget of its
  dataset: the conversion is falsy, and \<open>||\<close> takes its right operand. Every call of
  \<open>execute\<close> carries the default, and a run that gets past the checks and the setup of
  the agent makes that call.
\<close>

theorem zero_or_nan_override_uses_default:
  assumes "Number (process_env w ''AGENT_EVAL_MAX_STEPS'') = Num 0
           \<or> Number (process_env w ''AGENT_EVAL_MAX_STEPS'') = NegZero
           \<or> Number (process_env w ''AGENT_EVAL_MAX_STEPS'') = NaN"
  shows "(Execute i n \<in> set (snd (webvoyager w a)) \<longrightarrow> n = Num 75)
       \<and> (Execute i n \<in> set (snd (onlineMind2Web w a)) \<longrightarrow> n = Num 80)
       \<and> (Execute i n \<in> set (snd (gaia w a)) \<longrightarrow> n = Num 50)
       \<and> (truthy (paramsOf a ''web'') \<and> truthy (paramsOf a ''ques'')
            \<and> goto w (the (paramsOf a ''web'')) = None
            \<and> map_of (modelToAgentProviderMap w) (modelName a) = Some p
            \<and> title w = Inr t \<longrightarrow>
            Execute (the (paramsOf a ''ques'')) (Num 75) \<in> set (snd (webvoyager w a))
            \<and> Execute (the (paramsOf a ''ques'')) (Num 50) \<in> set (snd (gaia w a)))
       \<and> (truthy (paramsOf a ''website'') \<and> truthy (paramsOf a ''confirmed_task'')
            \<and> goto w (the (paramsOf a ''website'')) = None
            \<and> map_of (modelToAgentProviderMap w) (modelName a) = Some p
            \<and> title w = Inr t \<longrightarrow>
            Execute (the (paramsOf a ''confirmed_task'')) (Num 80)
              \<in> set (snd (onlineMind2Web w a)))"
proof -
  from assms have falsy: "or_number (Number (process_env w ''AGENT_EVAL_MAX_STEPS'')) d = d"
    for d
    by (auto simp add: or_number_def truthy_number_def)
  show ?thesis
    using webvoyager_budget [of i n w a] onlineMind2Web_budget [of i n w a]
      gaia_budget [of i n w a] webvoyager_executes [of a w p t]
      onlineMind2Web_executes [of a w p t] gaia_executes [of a w p t]
    by (simp add: falsy)
qed

theorem zero_or_nan_override_uses_default_witness:
  "Number (process_env (overrideWorld ''abc'') ''AGENT_EVAL_MAX_STEPS'') = NaN
   \<and> Number (process_env (overrideWorld ''0'') ''AGENT_EVAL_MAX_STEPS'') = Num 0
   \<and> Execute ''find price'' (Num 75) \<in> set (snd (webvoyager (overrideWorld ''abc'') exampleArgs))
   \<and> Execute ''find price'' (Num 80) \<in> set (snd (onlineMind2Web (overrideWorld ''0'') exampleArgs))
   \<and> Execute ''find price'' (Num 50) \<in> set (snd (gaia (overrideWorld ''abc'') exampleArgs))"
proof -
  have abc: "Number (process_env (overrideWorld ''abc'') ''AGENT_EVAL_MAX_STEPS'') = NaN"
    and zero: "Number (process_env (overrideWorld ''0'') ''AGENT_EVAL_MAX_STEPS'') = Num 0"
    by (simp_all add: overrideWorld_def Number_text Number_zero)
  from abc have h1: "Number (process_env (overrideWorld ''abc'') ''AGENT_EVAL_MAX_STEPS'') = Num 0
           \<or> Number (process_env (overrideWorld ''abc'') ''AGENT_EVAL_MAX_STEPS'') = NegZero
           \<or> Number (process_env (overrideWorld ''abc'') ''AGENT_EVAL_MAX_STEPS'') = NaN"
    by simp
  from zero have h2: "Number (process_env (overrideWorld ''0'') ''AGENT_EVAL_MAX_STEPS'') = Num 0
           \<or> Number (process_env (overrideWorld ''0'') ''AGENT_EVAL_MAX_STEPS'') = NegZero
           \<or> Number (process_env (overrideWorld ''0'') ''AGENT_EVAL_MAX_STEPS'') = NaN"
    by simp
  have reach:
    "truthy (paramsOf exampleArgs ''web'')" "truthy (paramsOf exampleArgs ''ques'')"
    "truthy (paramsOf exampleArgs ''website'')"
    "truthy (paramsOf exampleArgs ''confirmed_task'')"
    "the (paramsOf exampleArgs ''ques'') = ''find price''"
    "the (paramsOf exampleArgs ''confirmed_task'') = ''find price''"
    "goto (overrideWorld v) (the (paramsOf exampleArgs ''web'')) = None"
    "goto (overrideWorld v) (the (paramsOf exampleArgs ''website'')) = None"
    "map_of (modelToAgentProviderMap (overrideWorld v)) (modelName exampleArgs)
       = Some ''openai''"
    "title (overrideWorld v) = Inr ''Example Domain''" for v
    by (simp_all add: paramsOf_def truthy_def example_defs overrideWorld_def)
  note t1 = zero_or_nan_override_uses_default
              [OF h1, of "''find price''" "Num 75" exampleArgs "''openai''" "''Example Domain''"]
  note t2 = zero_or_nan_override_uses_default
              [OF h2, of "''find price''" "Num 80" exampleArgs "''openai''" "''Example Domain''"]
  from t1 t2 abc zero reach show ?thesis by simp
qed


section \<open>The case limit\<close>

text \<open>
  C9. A variable counts as set when it holds a non-empty string. When \<open>EVAL_MAX_K\<close> is
  set, \<open>maxCases\<close> is its conversion to a number, whether or not
  \<open>EVAL_ONLINEMIND2WEB_LIMIT\<close> is set too; when only \<open>EVAL_ONLINEMIND2WEB_LIMIT\<close> is set,
  \<open>maxCases\<close> is the conversion of that one; when neither is set, \<open>maxCases\<close> is 25.
\<close>

theorem maxCases_precedence:
  "(truthy (env ''EVAL_MAX_K'') \<longrightarrow> maxCases env = Number (env ''EVAL_MAX_K''))
   \<and> (\<not> truthy (env ''EVAL_MAX_K'') \<and> truthy (env ''EVAL_ONLINEMIND2WEB_LIMIT'')
        \<longrightarrow> maxCases env = Number (env ''EVAL_ONLINEMIND2WEB_LIMIT''))
   \<and> (\<not> truthy (env ''EVAL_MAX_K'') \<and> \<not> truthy (env ''EVAL_ONLINEMIND2WEB_LIMIT'')
        \<longrightarrow> maxCases env = Num 25)"
  by (simp add: maxCases_def)

theorem maxCases_precedence_witness:
  "truthy ([''EVAL_MAX_K'' \<mapsto> ''5'', ''EVAL_ONLINEMIND2WEB_LIMIT'' \<mapsto> ''10''] ''EVAL_MAX_K'')
   \<and> maxCases [''EVAL_MAX_K'' \<mapsto> ''5'', ''EVAL_ONLINEMIND2WEB_LIMIT'' \<mapsto> ''10''] = Num 5
   \<and> \<not> truthy ([''EVAL_ONLINEMIND2WEB_LIMIT'' \<mapsto> ''10''] ''EVAL_MAX_K'')
   \<and> truthy ([''EVAL_ONLINEMIND2WEB_LIMIT'' \<mapsto> ''10''] ''EVAL_ONLINEMIND2WEB_LIMIT'')
   \<and> maxCases [''EVAL_ONLINEMIND2WEB_LIMIT'' \<mapsto> ''10''] = Num 10
   \<and> \<not> truthy (Map.empty ''EVAL_MAX_K'')
   \<and> \<not> truthy (Map.empty ''EVAL_ONLINEMIND2WEB_LIMIT'')
   \<and> maxCases Map.empty = Num 25"
  using maxCases_precedence
          [of "[''EVAL_MAX_K'' \<mapsto> ''5'', ''EVAL_ONLINEMIND2WEB_LIMIT'' \<mapsto> ''10'']"]
        maxCases_precedence [of "[''EVAL_ONLINEMIND2WEB_LIMIT'' \<mapsto> ''10'']"]
        maxCases_precedence [of Map.empty]
  by (simp add: truthy_def Number_five Number_ten)


section \<open>The test cases\<close>

text \<open>The nested loops build the test cases model by model, and row by row within a model.\<close>

lemma push_loop: "foldl (\<lambda>acc row. acc @ [f row]) acc rows = acc @ map f rows"
  by (induction rows arbitrary: acc) simp_all

lemma buildOnlineMind2WebTestcases_concat:
  "buildOnlineMind2WebTestcases cfg rows models =
     concat (map (\<lambda>model. map (testcaseOf cfg model) rows) models)"
proof -
  have "foldl (\<lambda>acc model. foldl (\<lambda>acc row. acc @ [testcaseOf cfg model row]) acc rows)
          acc models
        = acc @ concat (map (\<lambda>model. map (testcaseOf cfg model) rows) models)" for acc
    by (induction models arbitrary: acc) (simp_all add: push_loop)
  from this [of "[]"] show ?thesis
    by (simp add: buildOnlineMind2WebTestcases_def)
qed

lemma product_concat: "List.product xs ys = concat (map (\<lambda>x. map (Pair x) ys) xs)"
  by (induction xs) simp_all

lemma buildOnlineMind2WebTestcases_length:
  "length (buildOnlineMind2WebTestcases cfg rows models) = length rows * length models"
  unfolding buildOnlineMind2WebTestcases_concat by (induction models) simp_all

lemma testcaseOf_pair:
  "(input_modelName (tc_input (testcaseOf cfg model row)),
    input_params (tc_input (testcaseOf cfg model row)))
   = (model, mind2web_row.truncate row)"
  by (simp add: testcaseOf_def Let_def mind2web_row.truncate_def)


text \<open>
  C6. The builder yields one test case for every pair of a model and a row,
  \<open>|rows| * |models|\<close> in all: read off the test cases, the models and the params are
  the product of the models with the rows (each row without its further keys), model by
  model and, within one model, in the order of the rows. Without models the result is
  the empty list.
\<close>

theorem testcases_cross_product:
  "length (buildOnlineMind2WebTestcases cfg rows models) = length rows * length models
   \<and> map (\<lambda>t. (input_modelName (tc_input t), input_params (tc_input t)))
        (buildOnlineMind2WebTestcases cfg rows models)
      = List.product models (map mind2web_row.truncate rows)
   \<and> buildOnlineMind2WebTestcases cfg rows [] = []"
proof (intro conjI)
  show "length (buildOnlineMind2WebTestcases cfg rows models) = length rows * length models"
    by (rule buildOnlineMind2WebTestcases_length)
  show "map (\<lambda>t. (input_modelName (tc_input t), input_params (tc_input t)))
          (buildOnlineMind2WebTestcases cfg rows models)
        = List.product models (map mind2web_row.truncate rows)"
    unfolding buildOnlineMind2WebTestcases_concat product_concat
    by (simp add: map_concat comp_def testcaseOf_pair)
  show "buildOnlineMind2WebTestcases cfg rows [] = []"
    by (simp add: buildOnlineMind2WebTestcases_def)
qed

theorem testcases_cross_product_witness:
  "length (buildOnlineMind2WebTestcases exampleTasksConfig [exampleRow] [''m1'']) = 1
   \<and> map (\<lambda>t. (input_modelName (tc_input t), input_params (tc_input t)))
        (buildOnlineMind2WebTestcases exampleTasksConfig [exampleRow] [''m1''])
      = [(''m1'', exampleRow)]
   \<and> map tc_tags (buildOnlineMind2WebTestcases exampleTasksConfig [exampleRow] [''m1''])
      = [[''m1'', ''mind2web'']]
   \<and> map tc_expected (buildOnlineMind2WebTestcases exampleTasksConfig [exampleRow] [''m1''])
      = [True]
   \<and> buildOnlineMind2WebTestcases exampleTasksConfig [exampleRow] [] = []"
  using testcases_cross_product [of exampleTasksConfig "[exampleRow]" "[''m1'']"]
  by (simp add: buildOnlineMind2WebTestcases_def testcaseOf_def Let_def
      mind2web_row.truncate_def exampleRow_def)


text \<open>
  C7. When \<open>tasksConfig\<close> has no entry for the task name \<open>agent/onlineMind2Web\<close>, every
  test case built has the category \<open>agent\<close> and no categories, and all the
  \<open>|rows| * |models|\<close> test cases are built.
\<close>

theorem default_category_is_agent:
  assumes "''agent/onlineMind2Web'' \<notin> cfg_name ` set tasksConfig"
  shows "(\<forall>t \<in> set (buildOnlineMind2WebTestcases tasksConfig rows models).
            meta_category (tc_metadata t) = ''agent'' \<and> meta_categories (tc_metadata t) = [])
       \<and> length (buildOnlineMind2WebTestcases tasksConfig rows models)
           = length rows * length models"
proof -
  from assms have "find (\<lambda>t. cfg_name t = ''agent/onlineMind2Web'') tasksConfig = None"
    by (auto simp add: find_None_iff intro: rev_image_eqI)
  then have "meta_category (tc_metadata (testcaseOf tasksConfig model row)) = ''agent''
           \<and> meta_categories (tc_metadata (testcaseOf tasksConfig model row)) = []"
    for model and row :: "'a mind2web_row_scheme"
    by (simp add: testcaseOf_def Let_def)
  then have "\<forall>t \<in> set (buildOnlineMind2WebTestcases tasksConfig rows models).
            meta_category (tc_metadata t) = ''agent'' \<and> meta_categories (tc_metadata t) = []"
    by (auto simp add: buildOnlineMind2WebTestcases_concat)
  then show ?thesis
    by (simp add: buildOnlineMind2WebTestcases_length)
qed

theorem default_category_is_agent_witness:
  "''agent/onlineMind2Web'' \<notin> cfg_name ` set exampleTasksConfig
   \<and> map (\<lambda>t. meta_category (tc_metadata t))
        (buildOnlineMind2WebTestcases exampleTasksConfig [exampleRow] [''m1'', ''m2''])
      = [''agent'', ''agent'']"
proof -
  have h: "''agent/onlineMind2Web'' \<notin> cfg_name ` set exampleTasksConfig"
    by (simp add: exampleTasksConfig_def)
  have b: "buildOnlineMind2WebTestcases exampleTasksConfig [exampleRow] [''m1'', ''m2'']
           = [testcaseOf exampleTasksConfig ''m1'' exampleRow,
              testcaseOf exampleTasksConfig ''m2'' exampleRow]"
    by (simp add: buildOnlineMind2WebTestcases_def)
  from default_category_is_agent [OF h, of "[exampleRow]" "[''m1'', ''m2'']"] h
  show ?thesis by (simp add: b)
qed


section \<open>The screenshot buffer\<close>

text \<open>
  Inserting a frame into the window of the last \<open>n\<close> frames gives the window of the last
  \<open>n\<close> frames again; a running collector therefore always holds such a window.
\<close>

lemma insertFrame_window:
  "insertFrame n f (drop (length fs - n) fs) = drop (length (fs @ [f]) - n) (fs @ [f])"
proof -
  consider "length fs < n" | "n = 0" | "0 < n" "n \<le> length fs"
    by linarith
  then show ?thesis
  proof cases
    case 1
    then show ?thesis by (simp add: insertFrame_def)
  next
    case 2
    then show ?thesis by (simp add: insertFrame_def)
  next
    case 3
    then have k: "length fs - n < length fs" "Suc (length fs) - n = Suc (length fs - n)"
      by simp_all
    from k(1) have "drop (length fs - n) fs \<noteq> []" by simp
    then have "tl (drop (length fs - n) fs @ [f]) = drop (Suc (length fs - n)) fs @ [f]"
      by (simp add: drop_Suc tl_drop)
    with 3 k show ?thesis by (simp add: insertFrame_def)
  qed
qed

lemma captures_running:
  assumes "state c = Running" and "buffer c = drop (length fs - maxScreenshots c) fs"
  shows "state (captures c ats) = Running
       \<and> maxScreenshots (captures c ats) = maxScreenshots c
       \<and> buffer (captures c ats)
           = drop (length (fs @ captured ats) - maxScreenshots c) (fs @ captured ats)"
  using assms
proof (induction ats arbitrary: c fs)
  case Nil
  then show ?case by (simp add: captures_def captured_def)
next
  case (Cons attempt ats)
  show ?case
  proof (cases attempt)
    case None
    with Cons show ?thesis
      by (simp add: captures_def captured_def capture_def)
  next
    case (Some f)
    let ?c = "capture (Some f) c"
    have "state ?c = Running" "maxScreenshots ?c = maxScreenshots c"
      "buffer ?c = drop (length (fs @ [f]) - maxScreenshots ?c) (fs @ [f])"
      using Cons.prems by (simp_all add: capture_def insertFrame_window)
    from Cons.IH [OF this(1) this(3)] this(2) Some show ?thesis
      by (simp add: captures_def captured_def)
  qed
qed

lemma started_buffer:
  "buffer (captures (start (newCollector n)) ats)
     = drop (length (captured ats) - n) (captured ats)"
proof -
  let ?c = "start (newCollector n) :: 'a collector"
  have c: "state ?c = Running" "maxScreenshots ?c = n"
    "buffer ?c = drop (length ([] :: 'a list) - maxScreenshots ?c) []"
    by (simp_all add: start_def newCollector_def)
  from captures_running [OF c(1) c(3), of ats] c(2) show ?thesis by simp
qed


text \<open>
  C5. For every capacity \<open>n\<close> and every run of the capture loop that captured more than
  \<open>n\<close> frames, \<open>stop()\<close> returns exactly \<open>n\<close> frames, the last \<open>n\<close> captured, in the
  order of their capture; and after any number of capture attempts the buffer holds at
  most \<open>n\<close> frames.
\<close>

theorem buffer_keeps_last_frames:
  assumes "n < length (captured attempts)"
  shows "snd (stop (captures (start (newCollector n)) attempts))
           = drop (length (captured attempts) - n) (captured attempts)
       \<and> length (snd (stop (captures (start (newCollector n)) attempts))) = n
       \<and> (\<forall>k. length (buffer (captures (start (newCollector n)) (take k attempts))) \<le> n)"
  using assms by (auto simp add: stop_def started_buffer)

theorem buffer_keeps_last_frames_witness:
  "3 < length (captured [Some ''a'', Some ''b'', None, Some ''c'', Some ''d''])
   \<and> snd (stop (captures (start (newCollector 3))
                  [Some ''a'', Some ''b'', None, Some ''c'', Some ''d'']))
       = [''b'', ''c'', ''d'']
   \<and> length (buffer (captures (start (newCollector 3))
                        (take 4 [Some ''a'', Some ''b'', None, Some ''c'', Some ''d''])))
       = 3"
proof -
  have h: "3 < length (captured [Some ''a'', Some ''b'', None, Some ''c'', Some ''d''])"
    by (simp add: captured_def)
  from buffer_keeps_last_frames [OF h] h show ?thesis
    by (simp add: captured_def started_buffer)
qed

end
